theory Spec2Isabelle
  imports Main "HOL-Library.Word"
begin

unbundle bit_operations_syntax

section \<open>JavaScript strings and values\<close>

text \<open>
  A JavaScript string is a sequence of UTF-16 code units. Literals of the source are
  written \<open>js ''...''\<close>. \<open>s.slice(0, n)\<close> is \<open>take n s\<close>, string concatenation and
  template literals are \<open>@\<close>, and a string is truthy when it is not empty.
\<close>

type_synonym code_unit = "16 word"
type_synonym jsstring = "code_unit list"

definition js :: "string \<Rightarrow> jsstring" where
  "js s = map (\<lambda>c. word_of_nat (of_char c)) s"

text \<open>The decimal text of a non-negative integer, as a template literal prints it.\<close>

fun nat_toString :: "nat \<Rightarrow> jsstring" where
  "nat_toString n =
     (if n < 10 then [word_of_nat (48 + n)]
      else nat_toString (n div 10) @ [word_of_nat (48 + n mod 10)])"

text \<open>
  A Number is an IEEE-754 double, kept as its 64 bits. It is falsy when it is \<open>+0\<close>,
  \<open>-0\<close> or a NaN. Its decimal text is the platform's business (see \<open>platform\<close>).
\<close>

datatype jsnumber = Float64 "64 word"

fun Number_isFalsy :: "jsnumber \<Rightarrow> bool" where
  "Number_isFalsy (Float64 w) =
     (w AND 0x7FFFFFFFFFFFFFFF = 0 \<or>
      (drop_bit 52 w AND 0x7FF = 0x7FF \<and> w AND 0xFFFFFFFFFFFFF \<noteq> 0))"

text \<open>
  The values the program handles: what \<open>JSON.parse\<close> returns, the request bodies the
  handlers build (whose absent optional fields are \<open>undefined\<close>), and raw text. An
  object is the list of its own properties in insertion order, each key once.
\<close>

datatype jsvalue =
    JUndefined
  | JNull
  | JBool bool
  | JNumber jsnumber
  | JString jsstring
  | JArray "jsvalue list"
  | JObject "(jsstring \<times> jsvalue) list"

fun truthy :: "jsvalue \<Rightarrow> bool" where
  "truthy JUndefined = False"
| "truthy JNull = False"
| "truthy (JBool b) = b"
| "truthy (JNumber n) = (\<not> Number_isFalsy n)"
| "truthy (JString s) = (s \<noteq> [])"
| "truthy (JArray xs) = True"
| "truthy (JObject kvs) = True"

text \<open>
  \<open>v.k\<close> for the property names the source reads (\<open>error\<close>, \<open>response\<close>, \<open>review\<close>,
  ...), none of which a built-in prototype defines: reading a property of \<open>null\<close> or
  \<open>undefined\<close> throws a TypeError (\<open>None\<close>); an object gives its own property or
  \<open>undefined\<close>; every other value gives \<open>undefined\<close>.
\<close>

fun get_property :: "jsvalue \<Rightarrow> jsstring \<Rightarrow> jsvalue option" where
  "get_property JUndefined k = None"
| "get_property JNull k = None"
| "get_property (JObject kvs) k =
     Some (case map_of kvs k of None \<Rightarrow> JUndefined | Some v \<Rightarrow> v)"
| "get_property v k = Some JUndefined"

fun join_comma :: "jsstring list \<Rightarrow> jsstring" where
  "join_comma [] = []"
| "join_comma [x] = x"
| "join_comma (x # y # ys) = x @ js '','' @ join_comma (y # ys)"

text \<open>
  The string conversion \<open>new Error(v)\<close> applies to its argument. An array converts by
  \<open>join(",")\<close>, where \<open>null\<close> and \<open>undefined\<close> elements give the empty string. An
  object born of JSON has no callable property, so it converts to
  \<open>[object Object]\<close> through \<open>Object.prototype.toString\<close> unless an own property
  \<open>toString\<close> shadows that method, in which case the conversion throws a TypeError
  (\<open>None\<close>). The text of a Number is given by the parameter \<open>num\<close>.
\<close>

fun ToString :: "(jsnumber \<Rightarrow> jsstring) \<Rightarrow> jsvalue \<Rightarrow> jsstring option" where
  "ToString num JUndefined = Some (js ''undefined'')"
| "ToString num JNull = Some (js ''null'')"
| "ToString num (JBool b) = Some (if b then js ''true'' else js ''false'')"
| "ToString num (JNumber n) = Some (num n)"
| "ToString num (JString s) = Some s"
| "ToString num (JArray xs) =
     map_option join_comma
       (those (map (\<lambda>x. case x of JNull \<Rightarrow> Some [] | JUndefined \<Rightarrow> Some []
                            | _ \<Rightarrow> ToString num x) xs))"
| "ToString num (JObject kvs) =
     (if map_of kvs (js ''toString'') = None then Some (js ''[object Object]'') else None)"

section \<open>The platform and the configuration\<close>

text \<open>
  The parsed form of \<open>new URL(fullUrl)\<close>, with the fields the source reads.
\<close>

record url =
  protocol :: jsstring
  hostname :: jsstring
  port :: jsstring
  pathname :: jsstring
  search :: jsstring

text \<open>
  The options \<open>request\<close> hands to \<open>http.request\<close> or \<open>https.request\<close>. The port is
  the string of the URL or, when that is empty, the default number of the scheme.
\<close>

datatype client_module = Https | Http

datatype port_value = PortString jsstring | PortNumber nat

record request_options =
  opt_hostname :: jsstring
  opt_port :: port_value
  opt_path :: jsstring
  opt_method :: jsstring
  opt_headers :: "(jsstring \<times> jsstring) list"
  opt_timeout :: nat

text \<open>
  Library functions of the runtime that the source calls and does not define. They are
  parameters of the model: every theorem below holds for every platform.
  \<^item> \<open>URL_parse\<close> is \<open>new URL(s)\<close>; \<open>Inl m\<close> is the TypeError it throws, of message \<open>m\<close>;
  \<^item> \<open>JSON_parse\<close> is \<open>JSON.parse\<close>; \<open>None\<close> is its SyntaxError;
  \<^item> \<open>JSON_stringify v n\<close> is \<open>JSON.stringify(v, null, n)\<close> (\<open>n = 0\<close>: no indentation),
    on values that are neither \<open>undefined\<close> nor cyclic;
  \<^item> \<open>Number_toString\<close> is the decimal text of a double;
  \<^item> \<open>TypeError_message k\<close> is the message of the TypeError thrown when property \<open>k\<close>
    of \<open>null\<close> is read;
  \<^item> \<open>URIError_message\<close> is the message of the URIError of \<open>encodeURIComponent\<close>;
  \<^item> \<open>request_refused options\<close> is the message of the error \<open>mod.request(options, ...)\<close>
    throws
    when it refuses the options (Node validates the method, the path and the header
    values before it creates the request), \<open>None\<close> when it returns the request object.
\<close>

record platform =
  URL_parse :: "jsstring \<Rightarrow> jsstring + url"
  JSON_parse :: "jsstring \<Rightarrow> jsvalue option"
  JSON_stringify :: "jsvalue \<Rightarrow> nat \<Rightarrow> jsstring"
  Number_toString :: "jsnumber \<Rightarrow> jsstring"
  TypeError_message :: "jsstring \<Rightarrow> jsstring"
  URIError_message :: jsstring
  request_refused :: "request_options \<Rightarrow> jsstring option"

text \<open>
  The module-level constants: \<open>API_KEY\<close> and \<open>BASE_URL\<close> are read once from the
  environment, \<open>version\<close> comes from \<open>package.json\<close>.
\<close>

record environment =
  CLOUD_AGENT_API_KEY :: "jsstring option"
  CLOUD_AGENT_URL :: "jsstring option"

record config =
  API_KEY :: jsstring
  BASE_URL :: jsstring
  version :: jsstring




section \<open>The HTTP helper \<open>request\<close>\<close>

definition MAX_RESPONSE_SIZE :: nat where
  "MAX_RESPONSE_SIZE = 5 * 1024 * 1024"

text \<open>
  What \<open>request\<close> does to the network is the list of calls it makes on the \<open>http\<close> or
  \<open>https\<close> module and on the request object, in order: \<open>mod.request(opts, callback)\<close>,
  \<open>req.write(text)\<close>, \<open>req.end()\<close>, \<open>req.destroy()\<close>. A call that makes none of them
  has touched no socket.
\<close>

datatype net_action =
    NetRequest client_module request_options
  | ReqWrite jsstring
  | ReqEnd
  | ReqDestroy

text \<open>
  What the network does to the call is a sequence of events, each of which runs the
  listener the source registered for it: the response arrives (the callback of
  \<open>mod.request\<close> runs, with the status code), the response emits \<open>data\<close> with a chunk or
  \<open>end\<close>, the request emits \<open>error\<close> or \<open>timeout\<close>. Of a chunk \<open>c\<close> the source reads
  \<open>c.length\<close> and the text that \<open>data += c\<close> appends.
\<close>

record chunk =
  chunk_length :: nat
  chunk_text :: jsstring

datatype net_event =
    EvResponse nat
  | EvData chunk
  | EvEnd
  | EvError jsstring
  | EvTimeout

text \<open>
  The promise \<open>request\<close> returns settles once: to the value it resolves with, or to the
  message of the Error it rejects with.
\<close>

datatype settled = Resolved jsvalue | Rejected jsstring

text \<open>
  The state of one call: the promise (\<open>None\<close> while pending), the calls made so far,
  whether \<open>req\<close> exists (its listeners are registered), the status code of \<open>res\<close> once
  the callback has run, the closure variables \<open>data\<close> and \<open>size\<close>, and whether
  \<open>req.destroy()\<close> has been called.
\<close>

record request_state =
  promise :: "settled option"
  actions :: "net_action list"
  req :: bool
  res :: "nat option"
  data :: jsstring
  size_bytes :: nat
  destroyed :: bool

definition initial_state :: request_state where
  "initial_state =
     \<lparr>promise = None, actions = [], req = False, res = None, data = [], size_bytes = 0,
      destroyed = False\<rparr>"

definition resolve :: "jsvalue \<Rightarrow> request_state \<Rightarrow> request_state" where
  "resolve v s = (case promise s of None \<Rightarrow> s\<lparr>promise := Some (Resolved v)\<rparr> | Some r \<Rightarrow> s)"

definition reject :: "jsstring \<Rightarrow> request_state \<Rightarrow> request_state" where
  "reject m s = (case promise s of None \<Rightarrow> s\<lparr>promise := Some (Rejected m)\<rparr> | Some r \<Rightarrow> s)"

definition req_destroy :: "request_state \<Rightarrow> request_state" where
  "req_destroy s = s\<lparr>destroyed := True, actions := actions s @ [ReqDestroy]\<rparr>"

text \<open>
  The body of the promise executor, from \<open>fullUrl\<close> to \<open>req.end()\<close>. An exception of
  \<open>new URL\<close> or of \<open>mod.request\<close> rejects the promise, as any exception thrown in an
  executor does; after the latter the call to \<open>mod.request\<close> has been made, and no
  request object exists.
\<close>

definition headers :: "config \<Rightarrow> (jsstring \<times> jsstring) list" where
  "headers cfg =
     [(js ''Content-Type'', js ''application/json''),
      (js ''User-Agent'', js ''mcp-server-cloud-agent/'' @ version cfg)]
     @ (if API_KEY cfg \<noteq> [] then [(js ''Authorization'', js ''Bearer '' @ API_KEY cfg)]
        else [])"

definition opts :: "config \<Rightarrow> url \<Rightarrow> jsstring \<Rightarrow> nat \<Rightarrow> request_options" where
  "opts cfg parsed meth timeout =
     (let isHttps = (protocol parsed = js ''https:'') in
      \<lparr>opt_hostname = hostname parsed,
       opt_port = (if port parsed \<noteq> [] then PortString (port parsed)
                   else PortNumber (if isHttps then 443 else 80)),
       opt_path = pathname parsed @ search parsed,
       opt_method = meth,
       opt_headers = headers cfg,
       opt_timeout = timeout\<rparr>)"

text \<open>\<open>if (body) req.write(JSON.stringify(body))\<close>.\<close>

definition write_body :: "platform \<Rightarrow> jsvalue option \<Rightarrow> net_action list" where
  "write_body pf body =
     (case body of
        None \<Rightarrow> []
      | Some b \<Rightarrow> if truthy b then [ReqWrite (JSON_stringify pf b 0)] else [])"

definition request_start ::
  "platform \<Rightarrow> config \<Rightarrow> jsstring \<Rightarrow> jsstring \<Rightarrow> jsvalue option \<Rightarrow> nat \<Rightarrow> request_state" where
  "request_start pf cfg meth urlPath body timeout =
     (let fullUrl = BASE_URL cfg @ urlPath in
      case URL_parse pf fullUrl of
        Inl m \<Rightarrow> reject m initial_state
      | Inr parsed \<Rightarrow>
          let isHttps = (protocol parsed = js ''https:'') in
          if \<not> isHttps \<and> API_KEY cfg \<noteq> [] then
            reject (js ''Refusing to send API key over insecure HTTP. Use HTTPS.'') initial_state
          else
            let client = (if isHttps then Https else Http);
                call = NetRequest client (opts cfg parsed meth timeout)
            in case request_refused pf (opts cfg parsed meth timeout) of
                 Some m \<Rightarrow> reject m (initial_state\<lparr>actions := [call]\<rparr>)
               | None \<Rightarrow>
                   initial_state
                     \<lparr>req := True, actions := [call] @ write_body pf body @ [ReqEnd]\<rparr>)"

text \<open>The \<open>data\<close> listener of the response.\<close>

definition on_data :: "chunk \<Rightarrow> request_state \<Rightarrow> request_state" where
  "on_data c s =
     (let s1 = s\<lparr>size_bytes := size_bytes s + chunk_length c\<rparr> in
      if size_bytes s1 > MAX_RESPONSE_SIZE then
        reject (js ''Response too large'') (req_destroy s1)
      else s1\<lparr>data := data s1 @ chunk_text c\<rparr>)"

text \<open>
  The \<open>end\<close> listener. Its \<open>try\<close> block holds \<open>JSON.parse\<close>, the read of
  \<open>json.error\<close> and the construction of the Error, so the \<open>catch\<close> block runs when any
  of the three throws. \<open>http_error_message\<close> is the message of
  \<open>new Error(json.error || `HTTP ${res.statusCode}`)\<close>, \<open>None\<close> when computing it throws.
\<close>

definition http_error_message :: "platform \<Rightarrow> jsvalue \<Rightarrow> nat \<Rightarrow> jsstring option" where
  "http_error_message pf json statusCode =
     (case get_property json (js ''error'') of
        None \<Rightarrow> None
      | Some e \<Rightarrow>
          if truthy e then ToString (Number_toString pf) e
          else Some (js ''HTTP '' @ nat_toString statusCode))"

definition on_end_catch :: "nat \<Rightarrow> request_state \<Rightarrow> request_state" where
  "on_end_catch statusCode s =
     (if statusCode \<ge> 400 then
        reject (js ''HTTP '' @ nat_toString statusCode @ js '': '' @ take 300 (data s)) s
      else resolve (JString (data s)) s)"

definition on_end :: "platform \<Rightarrow> nat \<Rightarrow> request_state \<Rightarrow> request_state" where
  "on_end pf statusCode s =
     (case JSON_parse pf (data s) of
        None \<Rightarrow> on_end_catch statusCode s
      | Some json \<Rightarrow>
          if statusCode \<ge> 400 then
            (case http_error_message pf json statusCode of
               None \<Rightarrow> on_end_catch statusCode s
             | Some m \<Rightarrow> reject m s)
          else resolve json s)"

text \<open>The \<open>error\<close> and \<open>timeout\<close> listeners of the request.\<close>

definition on_error :: "jsstring \<Rightarrow> request_state \<Rightarrow> request_state" where
  "on_error m s = reject m s"

definition on_timeout :: "request_state \<Rightarrow> request_state" where
  "on_timeout s = reject (js ''Request timed out'') (req_destroy s)"

text \<open>
  Delivery of one event to the listeners registered for it. No listener exists when
  \<open>mod.request\<close> was never called; the callback runs once, registering the response
  listeners with fresh \<open>data\<close> and \<open>size\<close>; a response event needs a response. Node
  drops the remaining data of the response once \<open>req.destroy()\<close> has been called, so no
  \<open>data\<close> listener runs after it; the other listeners stay registered.
\<close>

fun deliver :: "platform \<Rightarrow> request_state \<Rightarrow> net_event \<Rightarrow> request_state" where
  "deliver pf s (EvResponse statusCode) =
     (if req s \<and> res s = None then s\<lparr>res := Some statusCode, data := [], size_bytes := 0\<rparr>
      else s)"
| "deliver pf s (EvData c) =
     (if req s \<and> res s \<noteq> None \<and> \<not> destroyed s then on_data c s else s)"
| "deliver pf s EvEnd =
     (case res s of
        Some statusCode \<Rightarrow> if req s then on_end pf statusCode s else s
      | None \<Rightarrow> s)"
| "deliver pf s (EvError m) = (if req s then on_error m s else s)"
| "deliver pf s EvTimeout = (if req s then on_timeout s else s)"

text \<open>
  \<open>request(method, urlPath, body, timeout)\<close> against the events the network delivers:
  the state of the call after them. Its promise is the result of the call.
\<close>

definition request ::
  "platform \<Rightarrow> config \<Rightarrow> jsstring \<Rightarrow> jsstring \<Rightarrow> jsvalue option \<Rightarrow> nat \<Rightarrow> net_event list
     \<Rightarrow> request_state" where
  "request pf cfg meth urlPath body timeout evs =
     foldl (deliver pf) (request_start pf cfg meth urlPath body timeout) evs"

section \<open>\<open>encodeURIComponent\<close>\<close>

text \<open>
  The built-in of ECMAScript: a code unit of the unreserved set (letters, digits and
  \<open>- _ . ! ~ * ' ( )\<close>) is kept; any other code point is replaced by the \<open>%XX\<close> escapes
  of its UTF-8 octets, in upper-case hexadecimal; an unpaired surrogate throws a
  URIError (\<open>None\<close>).
\<close>

definition uriUnescaped :: "code_unit \<Rightarrow> bool" where
  "uriUnescaped c =
     (c \<in> set (js ''ABCDEFGHIJKLMNOPQRSTUVWXYZabcdefghijklmnopqrstuvwxyz0123456789-_.!~*'()''))"

definition hex_digit :: "nat \<Rightarrow> code_unit" where
  "hex_digit n = js ''0123456789ABCDEF'' ! (n mod 16)"

definition percent_octet :: "nat \<Rightarrow> jsstring" where
  "percent_octet b = [0x25, hex_digit (b div 16), hex_digit (b mod 16)]"

definition utf8_octets :: "nat \<Rightarrow> nat list" where
  "utf8_octets cp =
     (if cp < 0x80 then [cp]
      else if cp < 0x800 then [0xC0 + cp div 64, 0x80 + cp mod 64]
      else if cp < 0x10000 then
        [0xE0 + cp div 4096, 0x80 + (cp div 64) mod 64, 0x80 + cp mod 64]
      else
        [0xF0 + cp div 262144, 0x80 + (cp div 4096) mod 64, 0x80 + (cp div 64) mod 64,
         0x80 + cp mod 64])"

definition percent_encode :: "nat \<Rightarrow> jsstring" where
  "percent_encode cp = concat (map percent_octet (utf8_octets cp))"

definition is_lead_surrogate :: "code_unit \<Rightarrow> bool" where
  "is_lead_surrogate c = (0xD800 \<le> c \<and> c \<le> 0xDBFF)"

definition is_trail_surrogate :: "code_unit \<Rightarrow> bool" where
  "is_trail_surrogate c = (0xDC00 \<le> c \<and> c \<le> 0xDFFF)"

fun encodeURIComponent :: "jsstring \<Rightarrow> jsstring option" where
  "encodeURIComponent [] = Some []"
| "encodeURIComponent (c # cs) =
     (if uriUnescaped c then map_option (\<lambda>r. c # r) (encodeURIComponent cs)
      else if is_trail_surrogate c then None
      else if is_lead_surrogate c then
        (case cs of
           [] \<Rightarrow> None
         | d # ds \<Rightarrow>
             if is_trail_surrogate d then
               map_option
                 (\<lambda>r. percent_encode
                        ((unat c - 0xD800) * 0x400 + (unat d - 0xDC00) + 0x10000) @ r)
                 (encodeURIComponent ds)
             else None)
      else map_option (\<lambda>r. percent_encode (unat c) @ r) (encodeURIComponent cs))"

section \<open>The tools\<close>

text \<open>
  A handler returns \<open>{ content: [{ type: "text", text: t }] }\<close>; \<open>returned\<close> is that
  \<open>t\<close>, or \<open>None\<close> while the promise the handler awaits is pending. \<open>transport\<close> is the
  call the handler made to \<open>request\<close>, with its arguments and the state of that call,
  or \<open>None\<close> when the handler returned without calling it.
\<close>

record transport_call =
  call_method :: jsstring
  call_path :: jsstring
  call_body :: "jsvalue option"
  call_state :: request_state

record invocation =
  returned :: "jsvalue option"
  transport :: "transport_call option"

definition noKeyError :: jsvalue where
  "noKeyError =
     JString
       (js ''Error: CLOUD_AGENT_API_KEY environment variable is required.'' @ [0x0A, 0x0A]
        @ js ''Get an API key from your Cloud Agent web workspace at /auth/api-key.'' @ [0x0A]
        @ js ''API keys use the ca_* prefix.'')"

text \<open>\<open>`Error: ${e.message}`\<close>, the text every \<open>catch\<close> block of a handler returns.\<close>

definition error_text :: "jsstring \<Rightarrow> jsvalue" where
  "error_text m = JString (js ''Error: '' @ m)"

text \<open>
  The part every handler shares after its gate:
  \<open>try { const result = await request(...); return format(result) } catch (e) { ... }\<close>,
  with the default timeout of \<open>request\<close>. \<open>format\<close> gives \<open>Inl m\<close> when formatting the
  result throws an error of message \<open>m\<close>, which the same \<open>catch\<close> block reports.
\<close>

definition await_request ::
  "platform \<Rightarrow> config \<Rightarrow> jsstring \<Rightarrow> jsstring \<Rightarrow> jsvalue option \<Rightarrow> net_event list
     \<Rightarrow> (jsvalue \<Rightarrow> jsstring + jsvalue) \<Rightarrow> invocation" where
  "await_request pf cfg meth urlPath body evs format =
     (let st = request pf cfg meth urlPath body 600000 evs in
      \<lparr>returned =
         (case promise st of
            None \<Rightarrow> None
          | Some (Rejected m) \<Rightarrow> Some (error_text m)
          | Some (Resolved result) \<Rightarrow>
              (case format result of Inl m \<Rightarrow> Some (error_text m) | Inr t \<Rightarrow> Some t)),
       transport =
         Some \<lparr>call_method = meth, call_path = urlPath, call_body = body, call_state = st\<rparr>\<rparr>)"

text \<open>\<open>result.k\<close> inside a handler's \<open>try\<close> block.\<close>

definition read_property :: "platform \<Rightarrow> jsvalue \<Rightarrow> jsstring \<Rightarrow> jsstring + jsvalue" where
  "read_property pf v k =
     (case get_property v k of None \<Rightarrow> Inl (TypeError_message pf k) | Some x \<Rightarrow> Inr x)"

definition pretty :: "platform \<Rightarrow> jsvalue \<Rightarrow> jsvalue" where
  "pretty pf v = JString (JSON_stringify pf v 2)"

text \<open>\<open>a || b\<close> on values.\<close>

definition or_else :: "jsvalue \<Rightarrow> jsvalue \<Rightarrow> jsvalue" where
  "or_else a b = (if truthy a then a else b)"

text \<open>The summary \<open>run_task\<close> and \<open>generate_tests\<close> return.\<close>

definition task_summary :: "platform \<Rightarrow> jsvalue \<Rightarrow> jsstring + jsvalue" where
  "task_summary pf result =
     (case read_property pf result (js ''response'') of
        Inl m \<Rightarrow> Inl m
      | Inr response \<Rightarrow>
     (case read_property pf result (js ''cost_usd'') of
        Inl m \<Rightarrow> Inl m
      | Inr cost_usd \<Rightarrow>
     (case read_property pf result (js ''duration_ms'') of
        Inl m \<Rightarrow> Inl m
      | Inr duration_ms \<Rightarrow>
     (case read_property pf result (js ''pr_url'') of
        Inl m \<Rightarrow> Inl m
      | Inr pr_url \<Rightarrow>
          Inr (pretty pf
            (JObject
              [(js ''response'', response), (js ''cost_usd'', cost_usd),
               (js ''duration_ms'', duration_ms), (js ''pr_url'', or_else pr_url JNull)]))))))"

text \<open>\<open>result.k || JSON.stringify(result, null, 2)\<close>.\<close>

definition field_or_pretty :: "platform \<Rightarrow> jsstring \<Rightarrow> jsvalue \<Rightarrow> jsstring + jsvalue" where
  "field_or_pretty pf k result =
     (case read_property pf result k of
        Inl m \<Rightarrow> Inl m
      | Inr v \<Rightarrow> Inr (if truthy v then v else pretty pf result))"

text \<open>\<open>JSON.stringify(result.sessions || result, null, 2)\<close>.\<close>

definition sessions_pretty :: "platform \<Rightarrow> jsvalue \<Rightarrow> jsstring + jsvalue" where
  "sessions_pretty pf result =
     (case read_property pf result (js ''sessions'') of
        Inl m \<Rightarrow> Inl m
      | Inr v \<Rightarrow> Inr (pretty pf (or_else v result)))"

definition gate_failure :: invocation where
  "gate_failure = \<lparr>returned = Some noKeyError, transport = None\<rparr>"

text \<open>An optional string argument as a value: \<open>undefined\<close> when absent.\<close>

definition optional_string :: "jsstring option \<Rightarrow> jsvalue" where
  "optional_string x = (case x of None \<Rightarrow> JUndefined | Some s \<Rightarrow> JString s)"

datatype scan_type = ScanAll | ScanDependencies | ScanSecrets | ScanCode

fun scan_type_text :: "scan_type \<Rightarrow> jsstring" where
  "scan_type_text ScanAll = js ''all''"
| "scan_type_text ScanDependencies = js ''dependencies''"
| "scan_type_text ScanSecrets = js ''secrets''"
| "scan_type_text ScanCode = js ''code''"

datatype session_status = StatusRunning | StatusCompleted | StatusError

fun session_status_text :: "session_status \<Rightarrow> jsstring" where
  "session_status_text StatusRunning = js ''running''"
| "session_status_text StatusCompleted = js ''completed''"
| "session_status_text StatusError = js ''error''"

text \<open>
  The nine handlers. Their arguments have passed the schema of the tool: an optional
  argument is an \<open>option\<close>, \<open>limit\<close> and \<open>days\<close> are positive integers. \<open>evs\<close> is what the
  network delivers to the one request the handler may make.
\<close>

definition run_task :: "platform \<Rightarrow> config \<Rightarrow> jsstring \<Rightarrow> net_event list \<Rightarrow> invocation" where
  "run_task pf cfg prompt evs =
     (if API_KEY cfg = [] then gate_failure
      else await_request pf cfg (js ''POST'') (js ''/query'')
             (Some (JObject [(js ''prompt'', JString prompt)])) evs (task_summary pf))"

definition review_pr ::
  "platform \<Rightarrow> config \<Rightarrow> jsstring \<Rightarrow> bool option \<Rightarrow> net_event list \<Rightarrow> invocation" where
  "review_pr pf cfg pr_url post_comments evs =
     (if API_KEY cfg = [] then gate_failure
      else await_request pf cfg (js ''POST'') (js ''/review'')
             (Some (JObject [(js ''pr_url'', JString pr_url),
                             (js ''post_review'', JBool (post_comments = Some True))]))
             evs (field_or_pretty pf (js ''review'')))"

definition ask_codebase ::
  "platform \<Rightarrow> config \<Rightarrow> jsstring \<Rightarrow> jsstring \<Rightarrow> net_event list \<Rightarrow> invocation" where
  "ask_codebase pf cfg question repo evs =
     (if API_KEY cfg = [] then gate_failure
      else await_request pf cfg (js ''POST'') (js ''/ask'')
             (Some (JObject [(js ''question'', JString question), (js ''repo'', JString repo)]))
             evs (field_or_pretty pf (js ''answer'')))"

definition generate_tests ::
  "platform \<Rightarrow> config \<Rightarrow> jsstring \<Rightarrow> jsstring option \<Rightarrow> jsstring option \<Rightarrow> net_event list
     \<Rightarrow> invocation" where
  "generate_tests pf cfg repo file feature evs =
     (if API_KEY cfg = [] then gate_failure
      else
        let target = or_else (optional_string file) (optional_string feature) in
        if \<not> truthy target then
          \<lparr>returned =
             Some (JString (js ''Error: Provide either 'file' or 'feature' to test.'')),
           transport = None\<rparr>
        else await_request pf cfg (js ''POST'') (js ''/test'')
               (Some (JObject [(js ''file'', optional_string file),
                               (js ''feature'', optional_string feature),
                               (js ''repo'', JString repo)]))
               evs (task_summary pf))"

definition security_scan ::
  "platform \<Rightarrow> config \<Rightarrow> jsstring list \<Rightarrow> scan_type option \<Rightarrow> net_event list \<Rightarrow> invocation" where
  "security_scan pf cfg repos type evs =
     (if API_KEY cfg = [] then gate_failure
      else await_request pf cfg (js ''POST'') (js ''/scan'')
             (Some (JObject
               [(js ''repos'', JArray (map JString repos)),
                (js ''type'',
                 JString (case type of None \<Rightarrow> js ''all'' | Some t \<Rightarrow> scan_type_text t))]))
             evs (\<lambda>result. Inr (pretty pf result)))"

definition list_sessions ::
  "platform \<Rightarrow> config \<Rightarrow> nat option \<Rightarrow> session_status option \<Rightarrow> net_event list \<Rightarrow> invocation" where
  "list_sessions pf cfg limit status evs =
     (if API_KEY cfg = [] then gate_failure
      else
        let path = js ''/api/sessions?limit=''
              @ nat_toString (case limit of None \<Rightarrow> 20 | Some n \<Rightarrow> if n = 0 then 20 else n);
            path = (case status of
                      None \<Rightarrow> path
                    | Some st \<Rightarrow> path @ js ''&status='' @ session_status_text st)
        in await_request pf cfg (js ''GET'') path None evs (sessions_pretty pf))"

definition list_playbooks :: "platform \<Rightarrow> config \<Rightarrow> net_event list \<Rightarrow> invocation" where
  "list_playbooks pf cfg evs =
     (if API_KEY cfg = [] then gate_failure
      else await_request pf cfg (js ''GET'') (js ''/api/playbooks'') None evs
             (\<lambda>result. Inr (pretty pf result)))"

definition run_playbook ::
  "platform \<Rightarrow> config \<Rightarrow> jsstring \<Rightarrow> jsstring \<Rightarrow> (jsstring \<times> jsstring) list option
     \<Rightarrow> net_event list \<Rightarrow> invocation" where
  "run_playbook pf cfg slug repo inputs evs =
     (if API_KEY cfg = [] then gate_failure
      else
        case encodeURIComponent slug of
          None \<Rightarrow> \<lparr>returned = Some (error_text (URIError_message pf)), transport = None\<rparr>
        | Some encoded \<Rightarrow>
            await_request pf cfg (js ''POST'') (js ''/api/playbooks/'' @ encoded @ js ''/run'')
              (Some (JObject
                [(js ''repo'', JString repo),
                 (js ''inputs'',
                  case inputs of
                    None \<Rightarrow> JUndefined
                  | Some kvs \<Rightarrow> JObject (map (\<lambda>(k, v). (k, JString v)) kvs))]))
              evs (\<lambda>result. Inr (pretty pf result)))"

definition get_usage :: "platform \<Rightarrow> config \<Rightarrow> nat option \<Rightarrow> net_event list \<Rightarrow> invocation" where
  "get_usage pf cfg days evs =
     (if API_KEY cfg = [] then gate_failure
      else
        let path = (case days of
                      None \<Rightarrow> js ''/api/usage''
                    | Some d \<Rightarrow> if d = 0 then js ''/api/usage''
                               else js ''/api/usage?days='' @ nat_toString d)
        in await_request pf cfg (js ''GET'') path None evs (\<lambda>result. Inr (pretty pf result)))"

text \<open>The registered tools: a call names one of them and carries its arguments.\<close>

datatype tool_call =
    Run_task jsstring
  | Review_pr jsstring "bool option"
  | Ask_codebase jsstring jsstring
  | Generate_tests jsstring "jsstring option" "jsstring option"
  | Security_scan "jsstring list" "scan_type option"
  | List_sessions "nat option" "session_status option"
  | List_playbooks
  | Run_playbook jsstring jsstring "(jsstring \<times> jsstring) list option"
  | Get_usage "nat option"

fun call_tool :: "platform \<Rightarrow> config \<Rightarrow> tool_call \<Rightarrow> net_event list \<Rightarrow> invocation" where
  "call_tool pf cfg (Run_task prompt) evs = run_task pf cfg prompt evs"
| "call_tool pf cfg (Review_pr pr_url post_comments) evs = review_pr pf cfg pr_url post_comments evs"
| "call_tool pf cfg (Ask_codebase question repo) evs = ask_codebase pf cfg question repo evs"
| "call_tool pf cfg (Generate_tests repo file feature) evs =
     generate_tests pf cfg repo file feature evs"
| "call_tool pf cfg (Security_scan repos type) evs = security_scan pf cfg repos type evs"
| "call_tool pf cfg (List_sessions limit status) evs = list_sessions pf cfg limit status evs"
| "call_tool pf cfg List_playbooks evs = list_playbooks pf cfg evs"
| "call_tool pf cfg (Run_playbook slug repo inputs) evs = run_playbook pf cfg slug repo inputs evs"
| "call_tool pf cfg (Get_usage days) evs = get_usage pf cfg days evs"


section \<open>Invariants of a call\<close>

text \<open>
  What holds of the state of every call, whatever the network delivers: \<open>data\<close> and
  \<open>size\<close> are empty until the response arrives; \<open>req.destroy()\<close> is always followed
  by a rejection, so a destroyed call is settled; a pending call has its request.
\<close>

definition call_invariant :: "request_state \<Rightarrow> bool" where
  "call_invariant s =
     ((res s = None \<longrightarrow> data s = [] \<and> size_bytes s = 0) \<and>
      (destroyed s \<longrightarrow> promise s \<noteq> None) \<and>
      (promise s = None \<longrightarrow> req s))"

text \<open>
  The accumulator stays under the ceiling: \<open>size\<close> counts what \<open>data\<close> holds while the
  call is not destroyed.
\<close>

definition buffer_bounded :: "request_state \<Rightarrow> bool" where
  "buffer_bounded s =
     (length (data s) \<le> MAX_RESPONSE_SIZE \<and>
      (\<not> destroyed s \<longrightarrow> length (data s) \<le> size_bytes s \<and> size_bytes s \<le> MAX_RESPONSE_SIZE))"

section \<open>A stand-in platform for closed examples\<close>

text \<open>
  In the manner of the mocks of the repository's test suite: a URL parser for
  \<open>http://host/path?query\<close> and \<open>https://host/path?query\<close> that removes the dot
  segments of the path as \<open>new URL\<close> does (on text that needs no percent-encoding and
  holds no backslash, port or fragment), a \<open>JSON.parse\<close> that knows
  the three JSON texts the examples use and rejects every other text (the examples only
  feed it these three texts and texts that are not JSON), and an \<open>https.request\<close> that
  refuses the header values Node refuses.
\<close>

fun split_on :: "code_unit \<Rightarrow> jsstring \<Rightarrow> jsstring list" where
  "split_on sep [] = [[]]"
| "split_on sep (c # cs) =
     (if c = sep then [] # split_on sep cs
      else (case split_on sep cs of [] \<Rightarrow> [[c]] | x # xs \<Rightarrow> (c # x) # xs))"

definition is_single_dot :: "jsstring \<Rightarrow> bool" where
  "is_single_dot seg = (seg \<in> set [js ''.'', js ''%2e'', js ''%2E''])"

definition is_double_dot :: "jsstring \<Rightarrow> bool" where
  "is_double_dot seg =
     (seg \<in> set [js ''..'', js ''.%2e'', js ''.%2E'', js ''%2e.'', js ''%2E.'',
                  js ''%2e%2e'', js ''%2e%2E'', js ''%2E%2e'', js ''%2E%2E''])"

text \<open>
  The path state of the URL parser: a double-dot segment removes the segment before
  it, a single-dot segment is dropped, and either of them in last position leaves an
  empty segment.
\<close>

fun remove_dot_segments :: "jsstring list \<Rightarrow> jsstring list \<Rightarrow> jsstring list" where
  "remove_dot_segments kept [] = kept"
| "remove_dot_segments kept (seg # rest) =
     (if is_double_dot seg then
        remove_dot_segments (butlast kept @ (if rest = [] then [[]] else [])) rest
      else if is_single_dot seg then
        remove_dot_segments (kept @ (if rest = [] then [[]] else [])) rest
      else remove_dot_segments (kept @ [seg]) rest)"

definition split_url :: "jsstring \<Rightarrow> jsstring \<Rightarrow> url" where
  "split_url scheme rest =
     (let host = takeWhile (\<lambda>c. c \<noteq> 0x2F \<and> c \<noteq> 0x3F) rest;
          tail = dropWhile (\<lambda>c. c \<noteq> 0x2F \<and> c \<noteq> 0x3F) rest;
          path = takeWhile (\<lambda>c. c \<noteq> 0x3F) tail;
          segments = remove_dot_segments [] (split_on 0x2F (drop 1 path))
      in \<lparr>protocol = scheme, hostname = host, port = [],
          pathname = concat (map (\<lambda>seg. 0x2F # seg) segments),
          search = dropWhile (\<lambda>c. c \<noteq> 0x3F) tail\<rparr>)"

definition mock_URL_parse :: "jsstring \<Rightarrow> jsstring + url" where
  "mock_URL_parse s =
     (if take 8 s = js ''https://'' then Inr (split_url (js ''https:'') (drop 8 s))
      else if take 7 s = js ''http://'' then Inr (split_url (js ''http:'') (drop 7 s))
      else Inl (js ''Invalid URL''))"

text \<open>The text \<open>{"error":"Unauthorized"}\<close>.\<close>

definition unauthorized_body :: jsstring where
  "unauthorized_body =
     js ''{'' @ [0x22] @ js ''error'' @ [0x22] @ js '':'' @ [0x22] @ js ''Unauthorized''
     @ [0x22] @ js ''}''"

definition mock_JSON_parse :: "jsstring \<Rightarrow> jsvalue option" where
  "mock_JSON_parse s =
     (if s = js ''null'' then Some JNull
      else if s = unauthorized_body then
        Some (JObject [(js ''error'', JString (js ''Unauthorized''))])
      else if s = js ''{}'' then Some (JObject [])
      else None)"

text \<open>
  Node refuses a header value that holds a code unit other than a tab, \<open>0x20\<close> to
  \<open>0x7E\<close> and \<open>0x80\<close> to \<open>0xFF\<close>.
\<close>

definition valid_header_unit :: "code_unit \<Rightarrow> bool" where
  "valid_header_unit c = (c = 0x09 \<or> (0x20 \<le> c \<and> c \<le> 0x7E) \<or> (0x80 \<le> c \<and> c \<le> 0xFF))"

definition mock_request_refused :: "request_options \<Rightarrow> jsstring option" where
  "mock_request_refused options =
     (case filter (\<lambda>(name, v). \<not> list_all valid_header_unit v) (opt_headers options) of
        [] \<Rightarrow> None
      | (name, v) # rest \<Rightarrow>
          Some (js ''Invalid character in header content ['' @ [0x22] @ name @ [0x22] @ js '']''))"

definition mock_platform :: platform where
  "mock_platform =
     \<lparr>URL_parse = mock_URL_parse,
      JSON_parse = mock_JSON_parse,
      JSON_stringify = (\<lambda>v n. js ''{}''),
      Number_toString = (\<lambda>n. js ''0''),
      TypeError_message =
        (\<lambda>k. js ''Cannot read properties of null (reading '' @ [0x27] @ k @ [0x27] @ js '')''),
      URIError_message = js ''URI malformed'',
      request_refused = mock_request_refused\<rparr>"

definition test_config :: config where
  "test_config =
     \<lparr>API_KEY = js ''ca_test'', BASE_URL = js ''https://api.example.com'',
      version = js ''1.0.0''\<rparr>"

definition insecure_config :: config where
  "insecure_config = test_config\<lparr>BASE_URL := js ''http://api.example.com''\<rparr>"

definition keyless_config :: config where
  "keyless_config = test_config\<lparr>API_KEY := []\<rparr>"

section \<open>Basic facts\<close>

declare nat_toString.simps [simp del]

lemmas run_defs = request_def request_start_def headers_def opts_def write_body_def
  initial_state_def MAX_RESPONSE_SIZE_def
  on_data_def on_end_def http_error_message_def on_end_catch_def on_error_def on_timeout_def
  reject_def resolve_def req_destroy_def

lemmas mock_defs = mock_platform_def test_config_def insecure_config_def keyless_config_def
  mock_URL_parse_def split_url_def mock_JSON_parse_def unauthorized_body_def
  mock_request_refused_def valid_header_unit_def is_single_dot_def is_double_dot_def

lemma request_snoc:
  "request pf cfg meth urlPath body timeout (evs @ [e]) =
     deliver pf (request pf cfg meth urlPath body timeout evs) e"
  by (simp add: request_def)

lemma request_append:
  "request pf cfg meth urlPath body timeout (evs @ evs') =
     foldl (deliver pf) (request pf cfg meth urlPath body timeout evs) evs'"
  by (simp add: request_def)

lemma reject_fields [simp]:
  "actions (reject m s) = actions s" "req (reject m s) = req s" "res (reject m s) = res s"
  "data (reject m s) = data s" "size_bytes (reject m s) = size_bytes s"
  "destroyed (reject m s) = destroyed s"
  by (simp_all add: reject_def split: option.splits)

lemma resolve_fields [simp]:
  "actions (resolve v s) = actions s" "req (resolve v s) = req s" "res (resolve v s) = res s"
  "data (resolve v s) = data s" "size_bytes (resolve v s) = size_bytes s"
  "destroyed (resolve v s) = destroyed s"
  by (simp_all add: resolve_def split: option.splits)

lemma promise_reject:
  "promise (reject m s) = Some (case promise s of None \<Rightarrow> Rejected m | Some r \<Rightarrow> r)"
  by (simp add: reject_def split: option.splits)

lemma promise_resolve:
  "promise (resolve v s) = Some (case promise s of None \<Rightarrow> Resolved v | Some r \<Rightarrow> r)"
  by (simp add: resolve_def split: option.splits)

lemma req_destroy_fields [simp]:
  "promise (req_destroy s) = promise s" "req (req_destroy s) = req s"
  "res (req_destroy s) = res s" "data (req_destroy s) = data s"
  "size_bytes (req_destroy s) = size_bytes s" "destroyed (req_destroy s)"
  "actions (req_destroy s) = actions s @ [ReqDestroy]"
  by (simp_all add: req_destroy_def)

lemma on_end_fields [simp]:
  "actions (on_end pf c s) = actions s" "req (on_end pf c s) = req s"
  "res (on_end pf c s) = res s" "data (on_end pf c s) = data s"
  "size_bytes (on_end pf c s) = size_bytes s" "destroyed (on_end pf c s) = destroyed s"
  by (simp_all add: on_end_def on_end_catch_def split: option.splits)

lemma on_end_settled: "promise s = Some r \<Longrightarrow> promise (on_end pf c s) = Some r"
  by (simp add: on_end_def on_end_catch_def promise_reject promise_resolve split: option.splits)

lemma deliver_without_req: "\<not> req s \<Longrightarrow> deliver pf s e = s"
  by (cases e) (simp_all split: option.splits)

lemma run_without_req: "\<not> req s \<Longrightarrow> foldl (deliver pf) s evs = s"
  by (induction evs) (simp_all add: deliver_without_req)

lemma deliver_settled: "promise s = Some r \<Longrightarrow> promise (deliver pf s e) = Some r"
proof (cases e)
  case (EvData c)
  assume "promise s = Some r"
  then show ?thesis
    using EvData by (simp add: on_data_def Let_def promise_reject)
next
  case EvEnd
  assume "promise s = Some r"
  then show ?thesis
    using EvEnd by (simp add: on_end_settled split: option.splits)
qed (simp_all add: on_error_def on_timeout_def promise_reject)

lemma run_settled: "promise s = Some r \<Longrightarrow> promise (foldl (deliver pf) s evs) = Some r"
  by (induction evs arbitrary: s) (simp_all add: deliver_settled)

lemma request_start_cases:
  "(\<exists>m acts. request_start pf cfg meth urlPath body timeout
       = reject m (initial_state\<lparr>actions := acts\<rparr>))
   \<or> (\<exists>acts. request_start pf cfg meth urlPath body timeout
       = initial_state\<lparr>req := True, actions := acts\<rparr>)"
proof (cases "URL_parse pf (BASE_URL cfg @ urlPath)")
  case (Inl m)
  then have "request_start pf cfg meth urlPath body timeout
      = reject m (initial_state\<lparr>actions := []\<rparr>)"
    by (simp add: request_start_def initial_state_def)
  then show ?thesis by blast
next
  case (Inr parsed)
  show ?thesis
  proof (cases "protocol parsed \<noteq> js ''https:'' \<and> API_KEY cfg \<noteq> []")
    case True
    with Inr have "request_start pf cfg meth urlPath body timeout
        = reject (js ''Refusing to send API key over insecure HTTP. Use HTTPS.'')
            (initial_state\<lparr>actions := []\<rparr>)"
      by (simp add: request_start_def initial_state_def)
    then show ?thesis by blast
  next
    case False
    with Inr show ?thesis
      by (cases "request_refused pf (opts cfg parsed meth timeout)")
        (auto simp: request_start_def Let_def)
  qed
qed

lemma start_invariant: "call_invariant (request_start pf cfg meth urlPath body timeout)"
  using request_start_cases [of pf cfg meth urlPath body timeout]
  by (auto simp: call_invariant_def initial_state_def promise_reject)

lemma deliver_invariant:
  assumes "call_invariant s"
  shows "call_invariant (deliver pf s e)"
proof (cases e)
  case (EvResponse statusCode)
  then show ?thesis using assms by (simp add: call_invariant_def)
next
  case (EvData c)
  then show ?thesis
    using assms by (auto simp: call_invariant_def on_data_def Let_def promise_reject)
next
  case EvEnd
  then show ?thesis
    using assms
    by (auto simp: call_invariant_def on_end_def on_end_catch_def promise_reject promise_resolve
        split: option.splits)
next
  case (EvError m)
  then show ?thesis
    using assms by (auto simp: call_invariant_def on_error_def promise_reject)
next
  case EvTimeout
  then show ?thesis
    using assms by (auto simp: call_invariant_def on_timeout_def promise_reject)
qed

lemma run_invariant: "call_invariant s \<Longrightarrow> call_invariant (foldl (deliver pf) s evs)"
  by (induction evs arbitrary: s) (simp_all add: deliver_invariant)

lemma request_invariant: "call_invariant (request pf cfg meth urlPath body timeout evs)"
  unfolding request_def by (rule run_invariant [OF start_invariant])

lemma deliver_after_destroy:
  assumes "destroyed s" and "call_invariant s"
  shows "destroyed (deliver pf s e) \<and> data (deliver pf s e) = data s
         \<and> size_bytes (deliver pf s e) = size_bytes s"
  using assms
  by (cases e) (auto simp: call_invariant_def on_error_def on_timeout_def split: option.splits)

lemma run_after_destroy:
  "destroyed s \<Longrightarrow> call_invariant s \<Longrightarrow>
     destroyed (foldl (deliver pf) s evs) \<and> data (foldl (deliver pf) s evs) = data s
     \<and> size_bytes (foldl (deliver pf) s evs) = size_bytes s"
proof (induction evs arbitrary: s)
  case Nil
  then show ?case by simp
next
  case (Cons e evs)
  have step: "destroyed (deliver pf s e) \<and> data (deliver pf s e) = data s
      \<and> size_bytes (deliver pf s e) = size_bytes s"
    using Cons.prems by (rule deliver_after_destroy)
  have "call_invariant (deliver pf s e)"
    using Cons.prems(2) by (rule deliver_invariant)
  with step Cons.IH [of "deliver pf s e"] show ?case by simp
qed

lemma start_bounded: "buffer_bounded (request_start pf cfg meth urlPath body timeout)"
  using request_start_cases [of pf cfg meth urlPath body timeout]
  by (auto simp: buffer_bounded_def initial_state_def)

lemma deliver_bounded:
  assumes "buffer_bounded s"
    and "\<And>c. e = EvData c \<Longrightarrow> length (chunk_text c) \<le> chunk_length c"
  shows "buffer_bounded (deliver pf s e)"
proof (cases e)
  case (EvData c)
  with assms(2) have "length (chunk_text c) \<le> chunk_length c" by simp
  then show ?thesis
    using assms(1) EvData by (auto simp: buffer_bounded_def on_data_def Let_def)
next
  case (EvResponse statusCode)
  then show ?thesis using assms(1) by (simp add: buffer_bounded_def)
next
  case EvEnd
  then show ?thesis using assms(1) by (simp add: buffer_bounded_def split: option.splits)
next
  case (EvError m)
  then show ?thesis using assms(1) by (simp add: buffer_bounded_def on_error_def)
next
  case EvTimeout
  then show ?thesis using assms(1) by (simp add: buffer_bounded_def on_timeout_def)
qed

lemma run_bounded:
  "buffer_bounded s \<Longrightarrow> \<forall>c. EvData c \<in> set evs \<longrightarrow> length (chunk_text c) \<le> chunk_length c
     \<Longrightarrow> buffer_bounded (foldl (deliver pf) s evs)"
proof (induction evs arbitrary: s)
  case Nil
  then show ?case by simp
next
  case (Cons e evs)
  have "buffer_bounded (deliver pf s e)"
    using Cons.prems by (intro deliver_bounded) auto
  then show ?case
    using Cons.IH [of "deliver pf s e"] Cons.prems(2) by simp
qed


lemma pending_has_request:
  "promise (request pf cfg meth urlPath body timeout evs) = None
     \<Longrightarrow> req (request pf cfg meth urlPath body timeout evs)
         \<and> \<not> destroyed (request pf cfg meth urlPath body timeout evs)"
  using request_invariant [of pf cfg meth urlPath body timeout evs]
  by (auto simp: call_invariant_def)

lemma end_of_pending_response:
  assumes "st = request pf cfg meth urlPath body timeout pre"
    and "promise st = None"
    and "res st = Some statusCode"
  shows "promise (request pf cfg meth urlPath body timeout (pre @ EvEnd # post))
           = promise (on_end pf statusCode st)"
proof -
  have live: "req st"
    using assms(1,2) pending_has_request by blast
  have step: "request pf cfg meth urlPath body timeout (pre @ [EvEnd]) = on_end pf statusCode st"
    using live assms(3) by (simp add: request_snoc assms(1) [symmetric])
  have rest: "request pf cfg meth urlPath body timeout (pre @ EvEnd # post)
      = foldl (deliver pf) (on_end pf statusCode st) post"
    using request_append [of pf cfg meth urlPath body timeout "pre @ [EvEnd]" post] step
    by simp
  have "promise (on_end pf statusCode st) \<noteq> None"
    by (simp add: on_end_def on_end_catch_def promise_reject promise_resolve
        split: option.splits)
  then obtain r where r: "promise (on_end pf statusCode st) = Some r"
    by blast
  show ?thesis
    using run_settled [OF r, of pf post] r by (simp add: rest)
qed

lemma mock_started:
  "request_start mock_platform test_config meth (js ''/api/usage'') None timeout =
     initial_state
       \<lparr>req := True,
        actions :=
          [NetRequest Https
             \<lparr>opt_hostname = js ''api.example.com'', opt_port = PortNumber 443,
              opt_path = js ''/api/usage'', opt_method = meth,
              opt_headers =
                [(js ''Content-Type'', js ''application/json''),
                 (js ''User-Agent'', js ''mcp-server-cloud-agent/1.0.0''),
                 (js ''Authorization'', js ''Bearer ca_test'')],
              opt_timeout = timeout\<rparr>,
           ReqEnd]\<rparr>"
  by (simp add: request_start_def headers_def opts_def write_body_def mock_defs js_def)

lemma mock_rejects_long_text: "length s = 1000 \<Longrightarrow> mock_JSON_parse s = None"
  by (auto simp: mock_JSON_parse_def unauthorized_body_def js_def)

lemma mock_rejects_plain_text: "mock_JSON_parse (js ''plain text'') = None"
  by (simp add: mock_JSON_parse_def unauthorized_body_def js_def)

lemma hex_digit_unescaped: "uriUnescaped (hex_digit n)"
proof -
  have "hex_digit n \<in> set (js ''0123456789ABCDEF'')"
    unfolding hex_digit_def by (rule nth_mem) (simp add: js_def)
  moreover have "\<forall>c \<in> set (js ''0123456789ABCDEF''). uriUnescaped c"
    by (simp add: js_def uriUnescaped_def)
  ultimately show ?thesis by blast
qed

lemma percent_octet_safe: "u \<in> set (percent_octet b) \<Longrightarrow> uriUnescaped u \<or> u = 0x25"
  by (auto simp: percent_octet_def hex_digit_unescaped)

lemma percent_encode_safe: "u \<in> set (percent_encode cp) \<Longrightarrow> uriUnescaped u \<or> u = 0x25"
  by (auto simp: percent_encode_def dest: percent_octet_safe)

lemma encodeURIComponent_safe:
  "encodeURIComponent s = Some e \<Longrightarrow> u \<in> set e \<Longrightarrow> uriUnescaped u \<or> u = 0x25"
proof (induction s arbitrary: e rule: encodeURIComponent.induct)
  case 1
  then show ?case by simp
next
  case (2 c cs)
  show ?case
  proof (cases "uriUnescaped c")
    case True
    with "2.prems" obtain r where r: "encodeURIComponent cs = Some r" "e = c # r"
      by auto
    with "2.IH"(1) [OF True r(1)] "2.prems"(2) True show ?thesis
      by auto
  next
    case False
    note not_kept = False
    show ?thesis
    proof (cases "is_trail_surrogate c")
      case True
      with not_kept "2.prems" show ?thesis by simp
    next
      case False
      note not_trail = False
      show ?thesis
      proof (cases "is_lead_surrogate c")
        case True
        with not_kept not_trail "2.prems" obtain d ds r where
          pair: "cs = d # ds" "is_trail_surrogate d" "encodeURIComponent ds = Some r"
            "e = percent_encode ((unat c - 0xD800) * 0x400 + (unat d - 0xDC00) + 0x10000) @ r"
          by (auto split: list.splits if_splits)
        from "2.IH"(2) [OF not_kept not_trail True pair(1) pair(2) pair(3)] "2.prems"(2) pair(4)
        show ?thesis
          by (auto dest: percent_encode_safe)
      next
        case False
        with not_kept not_trail "2.prems" obtain r where
          r: "encodeURIComponent cs = Some r" "e = percent_encode (unat c) @ r"
          by auto
        from "2.IH"(3) [OF not_kept not_trail False r(1)] "2.prems"(2) r(2)
        show ?thesis
          by (auto dest: percent_encode_safe)
      qed
    qed
  qed
qed

lemma delimiters_escaped: "\<not> uriUnescaped 0x2F" "\<not> uriUnescaped 0x20"
  by (simp_all add: uriUnescaped_def js_def)

lemma encode_example:
  "encodeURIComponent (js ''my playbook/v2'') = Some (js ''my%20playbook%2Fv2'')"
  by (simp add: js_def uriUnescaped_def is_trail_surrogate_def is_lead_surrogate_def
      percent_encode_def utf8_octets_def percent_octet_def hex_digit_def)







lemma mock_parses_unauthorized:
  "mock_JSON_parse unauthorized_body
     = Some (JObject [(js ''error'', JString (js ''Unauthorized''))])"
  by (simp add: mock_JSON_parse_def unauthorized_body_def js_def)






section \<open>The security check of \<open>request\<close>\<close>

text \<open>
  C1. When a credential is configured and the scheme of the resolved URL is not
  \<open>https:\<close>, the call is rejected with the message
  \<open>Refusing to send API key over insecure HTTP. Use HTTPS.\<close> and makes no call on the
  network modules: no request object is created, nothing is written or sent, whatever
  method, path, body and timeout it was given and whatever the network would deliver.
\<close>

theorem insecure_scheme_refused:
  assumes "API_KEY cfg \<noteq> []"
    and "URL_parse pf (BASE_URL cfg @ urlPath) = Inr parsed"
    and "protocol parsed \<noteq> js ''https:''"
  shows "promise (request pf cfg meth urlPath body timeout evs) =
           Some (Rejected (js ''Refusing to send API key over insecure HTTP. Use HTTPS.''))
         \<and> actions (request pf cfg meth urlPath body timeout evs) = []
         \<and> \<not> req (request pf cfg meth urlPath body timeout evs)"
proof -
  let ?refused =
    "reject (js ''Refusing to send API key over insecure HTTP. Use HTTPS.'') initial_state"
  have start: "request_start pf cfg meth urlPath body timeout = ?refused"
    using assms by (simp add: request_start_def)
  have idle: "\<not> req ?refused"
    by (simp add: initial_state_def)
  have "request pf cfg meth urlPath body timeout evs = ?refused"
    unfolding request_def start using idle by (rule run_without_req)
  then show ?thesis
    by (simp add: promise_reject initial_state_def)
qed

theorem insecure_scheme_refused_witness:
  "API_KEY insecure_config \<noteq> []
   \<and> promise (request mock_platform insecure_config (js ''POST'') (js ''/query'')
        (Some (JObject [(js ''prompt'', JString (js ''fix the bug''))])) 600000
        [EvResponse 200, EvData \<lparr>chunk_length = 2, chunk_text = js ''{}''\<rparr>, EvEnd]) =
       Some (Rejected (js ''Refusing to send API key over insecure HTTP. Use HTTPS.''))
   \<and> actions (request mock_platform insecure_config (js ''POST'') (js ''/query'')
        (Some (JObject [(js ''prompt'', JString (js ''fix the bug''))])) 600000
        [EvResponse 200, EvData \<lparr>chunk_length = 2, chunk_text = js ''{}''\<rparr>, EvEnd]) = []"
proof -
  have key: "API_KEY insecure_config \<noteq> []"
    by (simp add: mock_defs js_def)
  have parsed: "URL_parse mock_platform (BASE_URL insecure_config @ js ''/query'') =
      Inr (split_url (js ''http:'') (js ''api.example.com/query''))"
    by (simp add: mock_platform_def test_config_def insecure_config_def mock_URL_parse_def
        js_def)
  have scheme: "protocol (split_url (js ''http:'') (js ''api.example.com/query'')) \<noteq> js ''https:''"
    by (simp add: split_url_def js_def)
  show ?thesis
    using key insecure_scheme_refused [OF key parsed scheme] by simp
qed

section \<open>The credential gate of the tools\<close>

text \<open>
  C2. When no credential is configured (\<open>API_KEY\<close> is the empty string), every one of the
  nine tools returns the fixed text of \<open>noKeyError\<close>, which says that the environment
  variable is required and where to get a key, and does not call \<open>request\<close>, so nothing
  reaches the network, whatever the arguments of the call.
\<close>

theorem missing_credential_fails_closed:
  assumes "API_KEY cfg = []"
  shows "returned (call_tool pf cfg call evs)
           = Some (JString
               (js ''Error: CLOUD_AGENT_API_KEY environment variable is required.''
                @ [0x0A, 0x0A]
                @ js ''Get an API key from your Cloud Agent web workspace at /auth/api-key.''
                @ [0x0A]
                @ js ''API keys use the ca_* prefix.''))
         \<and> transport (call_tool pf cfg call evs) = None"
proof (cases call)
  case (Run_task prompt)
  then show ?thesis using assms by (simp add: run_task_def gate_failure_def noKeyError_def)
next
  case (Review_pr pr_url post_comments)
  then show ?thesis using assms by (simp add: review_pr_def gate_failure_def noKeyError_def)
next
  case (Ask_codebase question repo)
  then show ?thesis using assms by (simp add: ask_codebase_def gate_failure_def noKeyError_def)
next
  case (Generate_tests repo file_arg feature)
  then show ?thesis
    using assms by (simp add: generate_tests_def gate_failure_def noKeyError_def)
next
  case (Security_scan repos type)
  then show ?thesis
    using assms by (simp add: security_scan_def gate_failure_def noKeyError_def)
next
  case (List_sessions limit status)
  then show ?thesis
    using assms by (simp add: list_sessions_def gate_failure_def noKeyError_def)
next
  case List_playbooks
  then show ?thesis
    using assms by (simp add: list_playbooks_def gate_failure_def noKeyError_def)
next
  case (Run_playbook slug repo inputs)
  then show ?thesis using assms by (simp add: run_playbook_def gate_failure_def noKeyError_def)
next
  case (Get_usage days)
  then show ?thesis using assms by (simp add: get_usage_def gate_failure_def noKeyError_def)
qed

theorem missing_credential_fails_closed_witness:
  "API_KEY keyless_config = []
   \<and> call_tool mock_platform keyless_config (Run_task (js ''fix the bug'')) [EvResponse 200, EvEnd]
       = \<lparr>returned = Some (JString
            (js ''Error: CLOUD_AGENT_API_KEY environment variable is required.''
             @ [0x0A, 0x0A]
             @ js ''Get an API key from your Cloud Agent web workspace at /auth/api-key.''
             @ [0x0A]
             @ js ''API keys use the ca_* prefix.'')), transport = None\<rparr>
   \<and> transport (call_tool mock_platform keyless_config (Generate_tests (js ''a/b'') None None) [])
       = None
   \<and> transport (call_tool mock_platform keyless_config (Run_playbook [0xD800] (js ''a/b'') None) [])
       = None
   \<and> transport (call_tool mock_platform keyless_config List_playbooks [EvTimeout]) = None"
proof -
  have key: "API_KEY keyless_config = []"
    by (simp add: mock_defs)
  have shape: "\<And>i t. returned i = Some t \<and> transport i = None
      \<Longrightarrow> i = \<lparr>returned = Some t, transport = None\<rparr>"
    by simp
  show ?thesis
    using key
      shape [OF missing_credential_fails_closed [OF key, of mock_platform
        "Run_task (js ''fix the bug'')" "[EvResponse 200, EvEnd]"]]
      missing_credential_fails_closed [OF key, of mock_platform
        "Generate_tests (js ''a/b'') None None" "[]"]
      missing_credential_fails_closed [OF key, of mock_platform
        "Run_playbook [0xD800] (js ''a/b'') None" "[]"]
      missing_credential_fails_closed [OF key, of mock_platform
        "List_playbooks" "[EvTimeout]"]
    by simp
qed

section \<open>The size ceiling\<close>

text \<open>
  C3. The ceiling is \<open>5 * 1024 * 1024 = 5242880\<close> bytes and is checked at every chunk of a
  response. Take a call that is pending with its response under way. When a chunk
  takes the running total \<open>size\<close> above the ceiling, the listener calls \<open>req.destroy()\<close>
  and the call fails with \<open>Response too large\<close>; the chunk is not appended, and whatever
  the network delivers afterwards changes neither the result nor \<open>data\<close>. A chunk that
  keeps the total at or under the ceiling is appended and nothing else changes. As a
  consequence \<open>data\<close> never holds more than the ceiling, given that the text of a chunk
  has at most as many code units as the chunk has bytes (which holds of a decoded
  buffer and of a string).
\<close>

theorem size_ceiling_enforced:
  assumes "st = request pf cfg meth urlPath body timeout pre"
    and "promise st = None"
    and "res st \<noteq> None"
  shows "MAX_RESPONSE_SIZE = 5242880
    \<and> (size_bytes st + chunk_length c > MAX_RESPONSE_SIZE \<longrightarrow>
         actions (request pf cfg meth urlPath body timeout (pre @ [EvData c]))
           = actions st @ [ReqDestroy]
         \<and> promise (request pf cfg meth urlPath body timeout (pre @ EvData c # post))
           = Some (Rejected (js ''Response too large''))
         \<and> destroyed (request pf cfg meth urlPath body timeout (pre @ EvData c # post))
         \<and> data (request pf cfg meth urlPath body timeout (pre @ EvData c # post)) = data st)
    \<and> (size_bytes st + chunk_length c \<le> MAX_RESPONSE_SIZE \<longrightarrow>
         request pf cfg meth urlPath body timeout (pre @ [EvData c])
           = st\<lparr>size_bytes := size_bytes st + chunk_length c,
                data := data st @ chunk_text c\<rparr>)
    \<and> ((\<forall>d. EvData d \<in> set evs \<longrightarrow> length (chunk_text d) \<le> chunk_length d) \<longrightarrow>
         length (data (request pf cfg meth urlPath body timeout evs)) \<le> MAX_RESPONSE_SIZE)"
proof -
  have live: "req st" "\<not> destroyed st"
    using assms(1,2) pending_has_request by blast+
  have inv: "call_invariant st"
    unfolding assms(1) by (rule request_invariant)
  have step: "request pf cfg meth urlPath body timeout (pre @ [EvData c]) = on_data c st"
    using live assms(3) by (simp add: request_snoc assms(1) [symmetric])
  have over: "size_bytes st + chunk_length c > MAX_RESPONSE_SIZE \<longrightarrow>
         actions (request pf cfg meth urlPath body timeout (pre @ [EvData c]))
           = actions st @ [ReqDestroy]
         \<and> promise (request pf cfg meth urlPath body timeout (pre @ EvData c # post))
           = Some (Rejected (js ''Response too large''))
         \<and> destroyed (request pf cfg meth urlPath body timeout (pre @ EvData c # post))
         \<and> data (request pf cfg meth urlPath body timeout (pre @ EvData c # post)) = data st"
  proof
    assume exceeds: "size_bytes st + chunk_length c > MAX_RESPONSE_SIZE"
    let ?s' = "on_data c st"
    have s': "promise ?s' = Some (Rejected (js ''Response too large''))"
      "destroyed ?s'" "data ?s' = data st" "actions ?s' = actions st @ [ReqDestroy]"
      using exceeds assms(2) by (simp_all add: on_data_def Let_def promise_reject)
    have inv': "call_invariant ?s'"
      using deliver_invariant [OF inv, of pf "EvData c"] step
      by (simp add: request_snoc assms(1) [symmetric])
    have rest: "request pf cfg meth urlPath body timeout (pre @ EvData c # post)
        = foldl (deliver pf) ?s' post"
      using request_append [of pf cfg meth urlPath body timeout "pre @ [EvData c]" post] step
      by simp
    show "actions (request pf cfg meth urlPath body timeout (pre @ [EvData c]))
           = actions st @ [ReqDestroy]
         \<and> promise (request pf cfg meth urlPath body timeout (pre @ EvData c # post))
           = Some (Rejected (js ''Response too large''))
         \<and> destroyed (request pf cfg meth urlPath body timeout (pre @ EvData c # post))
         \<and> data (request pf cfg meth urlPath body timeout (pre @ EvData c # post)) = data st"
      using s' run_settled [OF s'(1), of pf post] run_after_destroy [OF s'(2) inv', of pf post]
      by (simp add: step rest)
  qed
  have under: "size_bytes st + chunk_length c \<le> MAX_RESPONSE_SIZE \<longrightarrow>
         request pf cfg meth urlPath body timeout (pre @ [EvData c])
           = st\<lparr>size_bytes := size_bytes st + chunk_length c,
                data := data st @ chunk_text c\<rparr>"
    by (simp add: step on_data_def Let_def)
  have bound: "(\<forall>d. EvData d \<in> set evs \<longrightarrow> length (chunk_text d) \<le> chunk_length d) \<longrightarrow>
         length (data (request pf cfg meth urlPath body timeout evs)) \<le> MAX_RESPONSE_SIZE"
  proof
    assume "\<forall>d. EvData d \<in> set evs \<longrightarrow> length (chunk_text d) \<le> chunk_length d"
    then have "buffer_bounded (request pf cfg meth urlPath body timeout evs)"
      unfolding request_def by (rule run_bounded [OF start_bounded])
    then show "length (data (request pf cfg meth urlPath body timeout evs)) \<le> MAX_RESPONSE_SIZE"
      by (simp add: buffer_bounded_def)
  qed
  have "MAX_RESPONSE_SIZE = 5242880"
    by (simp add: MAX_RESPONSE_SIZE_def)
  with over under bound show ?thesis by blast
qed

theorem size_ceiling_enforced_witness:
  "promise (request mock_platform test_config (js ''GET'') (js ''/api/usage'') None 600000
      ([EvResponse 200, EvData \<lparr>chunk_length = 5242880, chunk_text = js ''x''\<rparr>]
        @ EvData \<lparr>chunk_length = 1, chunk_text = js ''y''\<rparr>
        # [EvData \<lparr>chunk_length = 1, chunk_text = js ''z''\<rparr>, EvEnd]))
     = Some (Rejected (js ''Response too large''))
   \<and> data (request mock_platform test_config (js ''GET'') (js ''/api/usage'') None 600000
      ([EvResponse 200, EvData \<lparr>chunk_length = 5242880, chunk_text = js ''x''\<rparr>]
        @ EvData \<lparr>chunk_length = 1, chunk_text = js ''y''\<rparr>
        # [EvData \<lparr>chunk_length = 1, chunk_text = js ''z''\<rparr>, EvEnd]))
     = js ''x''
   \<and> length (data (request mock_platform test_config (js ''GET'') (js ''/api/usage'') None
        600000 [EvResponse 200, EvData \<lparr>chunk_length = 2, chunk_text = js ''{}''\<rparr>, EvEnd]))
       \<le> MAX_RESPONSE_SIZE"
proof -
  let ?pre = "[EvResponse 200, EvData \<lparr>chunk_length = 5242880, chunk_text = js ''x''\<rparr>]"
  let ?st = "request mock_platform test_config (js ''GET'') (js ''/api/usage'') None 600000 ?pre"
  have st: "promise ?st = None" "res ?st \<noteq> None" "data ?st = js ''x''"
    "size_bytes ?st = 5242880"
    by (simp_all add: request_def mock_started initial_state_def on_data_def
        MAX_RESPONSE_SIZE_def)
  have chunks: "\<forall>d. EvData d \<in> set [EvResponse 200,
      EvData \<lparr>chunk_length = 2, chunk_text = js ''{}''\<rparr>, EvEnd]
      \<longrightarrow> length (chunk_text d) \<le> chunk_length d"
    by (simp add: js_def)
  have exceeds: "size_bytes ?st + chunk_length \<lparr>chunk_length = 1, chunk_text = js ''y''\<rparr>
      > MAX_RESPONSE_SIZE"
    by (simp add: st(4) MAX_RESPONSE_SIZE_def)
  note ceiling = size_ceiling_enforced [OF refl st(1) st(2),
        of "\<lparr>chunk_length = 1, chunk_text = js ''y''\<rparr>"
           "[EvData \<lparr>chunk_length = 1, chunk_text = js ''z''\<rparr>, EvEnd]"
           "[EvResponse 200, EvData \<lparr>chunk_length = 2, chunk_text = js ''{}''\<rparr>, EvEnd]"]
  from ceiling exceeds have aborted:
    "promise (request mock_platform test_config (js ''GET'') (js ''/api/usage'') None 600000
      (?pre @ EvData \<lparr>chunk_length = 1, chunk_text = js ''y''\<rparr>
        # [EvData \<lparr>chunk_length = 1, chunk_text = js ''z''\<rparr>, EvEnd]))
     = Some (Rejected (js ''Response too large''))"
    "data (request mock_platform test_config (js ''GET'') (js ''/api/usage'') None 600000
      (?pre @ EvData \<lparr>chunk_length = 1, chunk_text = js ''y''\<rparr>
        # [EvData \<lparr>chunk_length = 1, chunk_text = js ''z''\<rparr>, EvEnd]))
     = data ?st"
    by blast+
  from ceiling chunks have bounded:
    "length (data (request mock_platform test_config (js ''GET'') (js ''/api/usage'') None
        600000 [EvResponse 200, EvData \<lparr>chunk_length = 2, chunk_text = js ''{}''\<rparr>, EvEnd]))
       \<le> MAX_RESPONSE_SIZE"
    by blast
  show ?thesis
    using aborted bounded unfolding st(3) by blast
qed

section \<open>Failures reported from a completed response\<close>

text \<open>
  C4, as the code has it. When the response of a pending call ends with a body that
  \<open>JSON.parse\<close> accepts, the parsed value is not \<open>null\<close> and the status code is 400 or
  more, the call fails. Its message is the string form of the \<open>error\<close> field of the
  parsed value when that field is truthy and has a string form (a non-empty string is
  its own string form), and \<open>HTTP <code>\<close> when the field is absent or falsy. The
  witness is the status-400 response of body \<open>{"error":"Unauthorized"}\<close>, whose
  message is \<open>Unauthorized\<close>.
\<close>

theorem json_error_body_message:
  assumes "st = request pf cfg meth urlPath body timeout pre"
    and "promise st = None"
    and "res st = Some statusCode"
    and "JSON_parse pf (data st) = Some json"
    and "json \<noteq> JNull"
    and "json \<noteq> JUndefined"
    and "statusCode \<ge> 400"
  shows "\<exists>e. get_property json (js ''error'') = Some e
    \<and> (truthy e \<longrightarrow>
         (\<forall>m. ToString (Number_toString pf) e = Some m \<longrightarrow>
            promise (request pf cfg meth urlPath body timeout (pre @ EvEnd # post))
              = Some (Rejected m)))
    \<and> (\<forall>m. e = JString m \<and> m \<noteq> [] \<longrightarrow>
          promise (request pf cfg meth urlPath body timeout (pre @ EvEnd # post))
            = Some (Rejected m))
    \<and> (\<not> truthy e \<longrightarrow>
         promise (request pf cfg meth urlPath body timeout (pre @ EvEnd # post))
           = Some (Rejected (js ''HTTP '' @ nat_toString statusCode)))"
proof -
  obtain e where e: "get_property json (js ''error'') = Some e"
    using assms(5,6) by (cases json) simp_all
  have result: "promise (request pf cfg meth urlPath body timeout (pre @ EvEnd # post))
      = promise (on_end pf statusCode st)"
    using assms(1,2,3) by (rule end_of_pending_response)
  have converted: "promise (on_end pf statusCode st) = Some (Rejected m)"
    if "truthy e" "ToString (Number_toString pf) e = Some m" for m
    using that assms(2,4,7) e by (simp add: on_end_def http_error_message_def promise_reject)
  have generic: "promise (on_end pf statusCode st)
      = Some (Rejected (js ''HTTP '' @ nat_toString statusCode))"
    if "\<not> truthy e"
    using that assms(2,4,7) e by (simp add: on_end_def http_error_message_def promise_reject)
  have string_field: "promise (on_end pf statusCode st) = Some (Rejected m)"
    if "e = JString m" "m \<noteq> []" for m
    using that converted [of m] by simp
  from e converted generic string_field show ?thesis
    unfolding result by blast
qed

theorem json_error_body_message_witness:
  "promise (request mock_platform test_config (js ''GET'') (js ''/api/usage'') None 600000
      ([EvResponse 400, EvData \<lparr>chunk_length = 24, chunk_text = unauthorized_body\<rparr>]
        @ EvEnd # []))
     = Some (Rejected (js ''Unauthorized''))"
proof -
  let ?pre = "[EvResponse 400, EvData \<lparr>chunk_length = 24, chunk_text = unauthorized_body\<rparr>]"
  let ?st = "request mock_platform test_config (js ''GET'') (js ''/api/usage'') None 600000 ?pre"
  let ?json = "JObject [(js ''error'', JString (js ''Unauthorized''))]"
  have st: "promise ?st = None" "res ?st = Some 400" "data ?st = unauthorized_body"
    by (simp_all add: request_def mock_started initial_state_def on_data_def
        MAX_RESPONSE_SIZE_def)
  have parse: "JSON_parse mock_platform (data ?st) = Some ?json"
    unfolding st(3) by (simp add: mock_platform_def mock_parses_unauthorized)
  have code: "(400 :: nat) \<ge> 400"
    by simp
  have field: "get_property ?json (js ''error'') = Some (JString (js ''Unauthorized''))"
    by simp
  have named: "js ''Unauthorized'' \<noteq> []"
    by (simp add: js_def)
  from json_error_body_message [OF refl st(1) st(2) parse _ _ code, of "[]"] field named
  show ?thesis
    by auto
qed

text \<open>
  The claim does not hold of every body that parses as JSON: the body \<open>null\<close> parses,
  reading \<open>json.error\<close> of it throws inside the \<open>try\<close> block, and the \<open>catch\<close> block
  reports \<open>HTTP 400: null\<close> where the claim has \<open>HTTP 400\<close>.
\<close>

theorem null_body_counterexample:
  "JSON_parse mock_platform (js ''null'') = Some JNull
   \<and> promise (request mock_platform test_config (js ''GET'') (js ''/api/usage'') None 600000
        [EvResponse 400, EvData \<lparr>chunk_length = 4, chunk_text = js ''null''\<rparr>, EvEnd])
       = Some (Rejected (js ''HTTP 400: null''))
   \<and> js ''HTTP 400: null'' \<noteq> js ''HTTP '' @ nat_toString 400"
proof -
  have parse: "JSON_parse mock_platform (js ''null'') = Some JNull"
    by (simp add: mock_platform_def mock_JSON_parse_def)
  have "promise (request mock_platform test_config (js ''GET'') (js ''/api/usage'') None 600000
        [EvResponse 400, EvData \<lparr>chunk_length = 4, chunk_text = js ''null''\<rparr>, EvEnd])
       = Some (Rejected (js ''HTTP '' @ nat_toString 400 @ js '': '' @ take 300 (js ''null'')))"
    using parse
    by (simp add: request_def mock_started initial_state_def on_data_def MAX_RESPONSE_SIZE_def
        on_end_def http_error_message_def on_end_catch_def promise_reject)
  moreover have "js ''HTTP '' @ nat_toString 400 @ js '': '' @ take 300 (js ''null'')
      = js ''HTTP 400: null''"
    by (simp add: js_def nat_toString.simps)
  moreover have "js ''HTTP 400: null'' \<noteq> js ''HTTP '' @ nat_toString 400"
    by (simp add: js_def nat_toString.simps)
  ultimately show ?thesis
    using parse by simp
qed

text \<open>
  C5. When the response of a pending call ends with a body that \<open>JSON.parse\<close> rejects
  and a status code of 400 or more, the call fails with the message
  \<open>HTTP <code>: \<close> followed by the first 300 code units of the body (the whole body when
  it is shorter). For a body of 1000 code units at status 500 the message is
  \<open>HTTP 500: \<close> followed by exactly 300 code units.
\<close>

theorem non_json_error_body_truncated:
  assumes "st = request pf cfg meth urlPath body timeout pre"
    and "promise st = None"
    and "res st = Some statusCode"
    and "JSON_parse pf (data st) = None"
    and "statusCode \<ge> 400"
  shows "promise (request pf cfg meth urlPath body timeout (pre @ EvEnd # post))
           = Some (Rejected (js ''HTTP '' @ nat_toString statusCode @ js '': ''
                              @ take 300 (data st)))
    \<and> length (take 300 (data st)) \<le> 300
    \<and> (statusCode = 500 \<and> length (data st) = 1000 \<longrightarrow>
         promise (request pf cfg meth urlPath body timeout (pre @ EvEnd # post))
           = Some (Rejected (js ''HTTP 500: '' @ take 300 (data st)))
         \<and> length (take 300 (data st)) = 300)"
proof -
  have msg: "promise (request pf cfg meth urlPath body timeout (pre @ EvEnd # post))
           = Some (Rejected (js ''HTTP '' @ nat_toString statusCode @ js '': ''
                              @ take 300 (data st)))"
    using assms(2,4,5)
    by (simp add: end_of_pending_response [OF assms(1,2,3)] on_end_def on_end_catch_def
        promise_reject)
  have five: "js ''HTTP '' @ nat_toString 500 @ js '': '' = js ''HTTP 500: ''"
    by (simp add: js_def nat_toString.simps)
  show ?thesis
    using msg five by auto
qed

theorem non_json_error_body_truncated_witness:
  "promise (request mock_platform test_config (js ''GET'') (js ''/api/usage'') None 600000
      ([EvResponse 500,
        EvData \<lparr>chunk_length = 1000, chunk_text = replicate 1000 0x78\<rparr>] @ EvEnd # []))
     = Some (Rejected (js ''HTTP 500: '' @ replicate 300 0x78))"
proof -
  let ?pre = "[EvResponse 500,
        EvData \<lparr>chunk_length = 1000, chunk_text = replicate 1000 (0x78 :: code_unit)\<rparr>]"
  let ?st = "request mock_platform test_config (js ''GET'') (js ''/api/usage'') None 600000 ?pre"
  have st: "promise ?st = None" "res ?st = Some 500" "data ?st = replicate 1000 0x78"
    by (simp_all add: request_def mock_started initial_state_def on_data_def
        MAX_RESPONSE_SIZE_def)
  have parse: "JSON_parse mock_platform (data ?st) = None"
    unfolding st(3) by (simp add: mock_platform_def mock_rejects_long_text)
  have code: "(500 :: nat) \<ge> 400"
    by simp
  have len: "length (data ?st) = 1000"
    by (simp add: st(3))
  from non_json_error_body_truncated [OF refl st(1) st(2) parse code, of "[]"] len
  have "promise (request mock_platform test_config (js ''GET'') (js ''/api/usage'') None 600000
      (?pre @ EvEnd # [])) = Some (Rejected (js ''HTTP 500: '' @ take 300 (data ?st)))"
    by blast
  then show ?thesis
    by (simp add: st(3))
qed

text \<open>
  C6. When the response of a pending call ends with a body that \<open>JSON.parse\<close> rejects
  and a status code below 400, the call succeeds and its value is the accumulated text
  itself. The witness is the status-200 response of body \<open>plain text\<close>.
\<close>

theorem non_json_success_body_resolves:
  assumes "st = request pf cfg meth urlPath body timeout pre"
    and "promise st = None"
    and "res st = Some statusCode"
    and "JSON_parse pf (data st) = None"
    and "statusCode < 400"
  shows "promise (request pf cfg meth urlPath body timeout (pre @ EvEnd # post))
           = Some (Resolved (JString (data st)))"
  using assms(2,4,5)
  by (simp add: end_of_pending_response [OF assms(1,2,3)] on_end_def on_end_catch_def
      promise_resolve)

theorem non_json_success_body_resolves_witness:
  "promise (request mock_platform test_config (js ''GET'') (js ''/api/usage'') None 600000
      ([EvResponse 200,
        EvData \<lparr>chunk_length = 10, chunk_text = js ''plain text''\<rparr>] @ EvEnd # []))
     = Some (Resolved (JString (js ''plain text'')))"
proof -
  let ?pre = "[EvResponse 200, EvData \<lparr>chunk_length = 10, chunk_text = js ''plain text''\<rparr>]"
  let ?st = "request mock_platform test_config (js ''GET'') (js ''/api/usage'') None 600000 ?pre"
  have st: "promise ?st = None" "res ?st = Some 200" "data ?st = js ''plain text''"
    by (simp_all add: request_def mock_started initial_state_def on_data_def
        MAX_RESPONSE_SIZE_def)
  have parse: "JSON_parse mock_platform (data ?st) = None"
    unfolding st(3) by (simp add: mock_platform_def mock_rejects_plain_text)
  have code: "(200 :: nat) < 400"
    by simp
  show ?thesis
    using non_json_success_body_resolves [OF refl st(1) st(2) parse code, of "[]"]
    by (simp add: st(3))
qed

section \<open>The timeout\<close>

text \<open>
  C7. When the timeout fires while the call is pending, the listener calls
  \<open>req.destroy()\<close> and the call fails with \<open>Request timed out\<close>. Whatever the network
  delivers afterwards, the result stays that failure and \<open>data\<close> and \<open>size\<close> stay as
  they were: no further response data is processed.
\<close>

theorem timeout_aborts_call:
  assumes "st = request pf cfg meth urlPath body timeout pre"
    and "promise st = None"
  shows "actions (request pf cfg meth urlPath body timeout (pre @ [EvTimeout]))
           = actions st @ [ReqDestroy]
    \<and> promise (request pf cfg meth urlPath body timeout (pre @ EvTimeout # post))
           = Some (Rejected (js ''Request timed out''))
    \<and> destroyed (request pf cfg meth urlPath body timeout (pre @ EvTimeout # post))
    \<and> data (request pf cfg meth urlPath body timeout (pre @ EvTimeout # post)) = data st
    \<and> size_bytes (request pf cfg meth urlPath body timeout (pre @ EvTimeout # post))
           = size_bytes st"
proof -
  have live: "req st"
    using assms pending_has_request by blast
  have inv: "call_invariant st"
    unfolding assms(1) by (rule request_invariant)
  let ?s' = "on_timeout st"
  have step: "request pf cfg meth urlPath body timeout (pre @ [EvTimeout]) = ?s'"
    using live by (simp add: request_snoc assms(1) [symmetric])
  have s': "promise ?s' = Some (Rejected (js ''Request timed out''))" "destroyed ?s'"
    "data ?s' = data st" "size_bytes ?s' = size_bytes st"
    "actions ?s' = actions st @ [ReqDestroy]"
    using assms(2) by (simp_all add: on_timeout_def promise_reject)
  have inv': "call_invariant ?s'"
    using deliver_invariant [OF inv, of pf EvTimeout] live by simp
  have rest: "request pf cfg meth urlPath body timeout (pre @ EvTimeout # post)
      = foldl (deliver pf) ?s' post"
    using request_append [of pf cfg meth urlPath body timeout "pre @ [EvTimeout]" post] step
    by simp
  show ?thesis
    using s' run_settled [OF s'(1), of pf post] run_after_destroy [OF s'(2) inv', of pf post]
    by (simp add: step rest)
qed

theorem timeout_aborts_call_witness:
  "promise (request mock_platform test_config (js ''GET'') (js ''/api/usage'') None 600000 [])
     = None
   \<and> promise (request mock_platform test_config (js ''GET'') (js ''/api/usage'') None 600000
        ([] @ EvTimeout # [EvResponse 200,
           EvData \<lparr>chunk_length = 2, chunk_text = js ''{}''\<rparr>, EvEnd]))
     = Some (Rejected (js ''Request timed out''))
   \<and> data (request mock_platform test_config (js ''GET'') (js ''/api/usage'') None 600000
        ([] @ EvTimeout # [EvResponse 200,
           EvData \<lparr>chunk_length = 2, chunk_text = js ''{}''\<rparr>, EvEnd]))
     = []"
proof -
  have pending:
    "promise (request mock_platform test_config (js ''GET'') (js ''/api/usage'') None 600000 [])
       = None"
    by (simp add: request_def mock_started initial_state_def)
  have empty:
    "data (request mock_platform test_config (js ''GET'') (js ''/api/usage'') None 600000 [])
       = []"
    by (simp add: request_def mock_started initial_state_def)
  show ?thesis
    using pending empty
      timeout_aborts_call [OF refl pending,
        of "[EvResponse 200, EvData \<lparr>chunk_length = 2, chunk_text = js ''{}''\<rparr>, EvEnd]"]
    by simp
qed

section \<open>The route of \<open>run_playbook\<close>\<close>

text \<open>
  What holds of the route as the handler builds it: every request \<open>run_playbook\<close> makes
  is a POST to \<open>'/api/playbooks/' + encodeURIComponent(slug) + '/run'\<close>, and the encoded
  slug holds no \<open>/\<close> and no space. With a credential configured the request is made for
  every slug that has an encoding. The slug \<open>my playbook/v2\<close> is encoded as
  \<open>my%20playbook%2Fv2\<close>.
\<close>

lemma run_playbook_route_encoded:
  "(\<forall>call. transport (run_playbook pf cfg slug repo inputs evs) = Some call \<longrightarrow>
      (\<exists>encoded. encodeURIComponent slug = Some encoded
         \<and> call_method call = js ''POST''
         \<and> call_path call = js ''/api/playbooks/'' @ encoded @ js ''/run''
         \<and> 0x2F \<notin> set encoded \<and> 0x20 \<notin> set encoded))
   \<and> (API_KEY cfg \<noteq> [] \<longrightarrow>
       (\<forall>encoded. encodeURIComponent slug = Some encoded \<longrightarrow>
          (\<exists>call. transport (run_playbook pf cfg slug repo inputs evs) = Some call
             \<and> call_path call = js ''/api/playbooks/'' @ encoded @ js ''/run'')))
   \<and> encodeURIComponent (js ''my playbook/v2'') = Some (js ''my%20playbook%2Fv2'')"
proof -
  have clean: "0x2F \<notin> set encoded \<and> 0x20 \<notin> set encoded"
    if "encodeURIComponent slug = Some encoded" for encoded
  proof -
    have "\<And>u. u \<in> set encoded \<Longrightarrow> uriUnescaped u \<or> u = 0x25"
      using that by (rule encodeURIComponent_safe)
    then have "0x2F \<in> set encoded \<Longrightarrow> False" "0x20 \<in> set encoded \<Longrightarrow> False"
      using delimiters_escaped by fastforce+
    then show ?thesis by blast
  qed
  have made: "\<exists>encoded. encodeURIComponent slug = Some encoded
         \<and> call_method call = js ''POST''
         \<and> call_path call = js ''/api/playbooks/'' @ encoded @ js ''/run''
         \<and> 0x2F \<notin> set encoded \<and> 0x20 \<notin> set encoded"
    if "transport (run_playbook pf cfg slug repo inputs evs) = Some call" for call
  proof (cases "encodeURIComponent slug")
    case None
    with that show ?thesis
      by (simp add: run_playbook_def gate_failure_def split: if_splits)
  next
    case (Some encoded)
    with that have "call_method call = js ''POST''"
      "call_path call = js ''/api/playbooks/'' @ encoded @ js ''/run''"
      by (auto simp: run_playbook_def gate_failure_def await_request_def Let_def
          split: if_splits)
    with Some clean [OF Some] show ?thesis by simp
  qed
  have reached: "\<exists>call. transport (run_playbook pf cfg slug repo inputs evs) = Some call
             \<and> call_path call = js ''/api/playbooks/'' @ encoded @ js ''/run''"
    if "API_KEY cfg \<noteq> []" "encodeURIComponent slug = Some encoded" for encoded
    using that by (simp add: run_playbook_def await_request_def Let_def)
  from made reached encode_example show ?thesis
    by blast
qed

lemma run_playbook_route_encoded_example:
  "\<exists>call. transport (run_playbook mock_platform test_config (js ''my playbook/v2'')
              (js ''owner/repo'') None []) = Some call
     \<and> call_path call = js ''/api/playbooks/my%20playbook%2Fv2/run''"
proof -
  have key: "API_KEY test_config \<noteq> []"
    by (simp add: test_config_def js_def)
  from run_playbook_route_encoded [of mock_platform test_config "js ''my playbook/v2''"
      "js ''owner/repo''" None "[]"] key
  obtain call where
    "transport (run_playbook mock_platform test_config (js ''my playbook/v2'')
        (js ''owner/repo'') None []) = Some call"
    "call_path call = js ''/api/playbooks/'' @ js ''my%20playbook%2Fv2'' @ js ''/run''"
    by blast
  then show ?thesis
    by (auto simp: js_def)
qed

text \<open>
  C8. The path of the request does not always keep the form
  \<open>/api/playbooks/<encoded-slug>/run\<close>: \<open>encodeURIComponent\<close> keeps the dot, so the slug
  \<open>..\<close> gives the route \<open>/api/playbooks/../run\<close>, \<open>new URL\<close> removes the dot segments when
  \<open>request\<close> parses the full URL, and the path of the request that is sent,
  \<open>parsed.pathname + parsed.search\<close>, is \<open>/api/run\<close>.
\<close>

theorem dot_slug_leaves_playbooks:
  "encodeURIComponent (js ''..'') = Some (js ''..'')
   \<and> transport (run_playbook mock_platform test_config (js ''..'') (js ''owner/repo'') None [])
       = Some \<lparr>call_method = js ''POST'', call_path = js ''/api/playbooks/../run'',
               call_body = Some (JObject [(js ''repo'', JString (js ''owner/repo'')),
                                          (js ''inputs'', JUndefined)]),
               call_state = request mock_platform test_config (js ''POST'')
                 (js ''/api/playbooks/../run'')
                 (Some (JObject [(js ''repo'', JString (js ''owner/repo'')),
                                 (js ''inputs'', JUndefined)])) 600000 []\<rparr>
   \<and> actions (request mock_platform test_config (js ''POST'') (js ''/api/playbooks/../run'')
         (Some (JObject [(js ''repo'', JString (js ''owner/repo'')),
                         (js ''inputs'', JUndefined)])) 600000 [])
       = [NetRequest Https
            \<lparr>opt_hostname = js ''api.example.com'', opt_port = PortNumber 443,
             opt_path = js ''/api/run'', opt_method = js ''POST'',
             opt_headers =
               [(js ''Content-Type'', js ''application/json''),
                (js ''User-Agent'', js ''mcp-server-cloud-agent/1.0.0''),
                (js ''Authorization'', js ''Bearer ca_test'')],
             opt_timeout = 600000\<rparr>,
          ReqWrite (js ''{}''), ReqEnd]"
proof -
  have encoded: "encodeURIComponent (js ''..'') = Some (js ''..'')"
    by (simp add: js_def uriUnescaped_def)
  have key: "API_KEY test_config \<noteq> []"
    by (simp add: test_config_def js_def)
  have path: "js ''/api/playbooks/'' @ js ''..'' @ js ''/run'' = js ''/api/playbooks/../run''"
    by (simp add: js_def)
  have call: "transport (run_playbook mock_platform test_config (js ''..'') (js ''owner/repo'')
        None [])
       = Some \<lparr>call_method = js ''POST'', call_path = js ''/api/playbooks/../run'',
               call_body = Some (JObject [(js ''repo'', JString (js ''owner/repo'')),
                                          (js ''inputs'', JUndefined)]),
               call_state = request mock_platform test_config (js ''POST'')
                 (js ''/api/playbooks/../run'')
                 (Some (JObject [(js ''repo'', JString (js ''owner/repo'')),
                                 (js ''inputs'', JUndefined)])) 600000 []\<rparr>"
    using key by (simp add: run_playbook_def encoded await_request_def Let_def path)
  have sent: "actions (request mock_platform test_config (js ''POST'')
         (js ''/api/playbooks/../run'')
         (Some (JObject [(js ''repo'', JString (js ''owner/repo'')),
                         (js ''inputs'', JUndefined)])) 600000 [])
       = [NetRequest Https
            \<lparr>opt_hostname = js ''api.example.com'', opt_port = PortNumber 443,
             opt_path = js ''/api/run'', opt_method = js ''POST'',
             opt_headers =
               [(js ''Content-Type'', js ''application/json''),
                (js ''User-Agent'', js ''mcp-server-cloud-agent/1.0.0''),
                (js ''Authorization'', js ''Bearer ca_test'')],
             opt_timeout = 600000\<rparr>,
          ReqWrite (js ''{}''), ReqEnd]"
    by (simp add: request_def request_start_def headers_def opts_def write_body_def
        initial_state_def mock_defs js_def Let_def)
  from encoded call sent show ?thesis
    by blast
qed

section \<open>A credential of blanks\<close>



text \<open>
  Node refuses a header value that holds a control character: with the credential of
  one newline the options carry the header all the same, \<open>https.request\<close> throws, and
  the call fails before any request exists.
\<close>

lemma newline_credential_refused:
  "promise (request mock_platform (test_config\<lparr>API_KEY := [0x0A]\<rparr>) (js ''POST'') (js ''/query'')
      None 600000 [])
     = Some (Rejected (js ''Invalid character in header content ['' @ [0x22]
          @ js ''Authorization'' @ [0x22] @ js '']''))
   \<and> \<not> req (request mock_platform (test_config\<lparr>API_KEY := [0x0A]\<rparr>) (js ''POST'')
        (js ''/query'') None 600000 [])"
  by (simp add: request_def request_start_def headers_def opts_def write_body_def
      initial_state_def mock_defs js_def Let_def reject_def)

section \<open>The target of \<open>generate_tests\<close>\<close>

text \<open>
  C10, as the code has it. With a credential configured, \<open>generate_tests\<close> returns the
  fixed text \<open>Error: Provide either 'file' or 'feature' to test.\<close> without calling
  \<open>request\<close> when each of \<open>file\<close> and \<open>feature\<close> is absent or the empty string;
  otherwise it calls \<open>request\<close> with POST, \<open>/test\<close> and the body
  \<open>{file, feature, repo}\<close>.
\<close>

theorem generate_tests_needs_target:
  assumes "API_KEY cfg \<noteq> []"
  shows "((file = None \<or> file = Some []) \<and> (feature = None \<or> feature = Some []) \<longrightarrow>
           generate_tests pf cfg repo file feature evs
             = \<lparr>returned =
                  Some (JString (js ''Error: Provide either 'file' or 'feature' to test.'')),
                transport = None\<rparr>)
       \<and> (\<not> ((file = None \<or> file = Some []) \<and> (feature = None \<or> feature = Some [])) \<longrightarrow>
           (\<exists>st. transport (generate_tests pf cfg repo file feature evs)
              = Some \<lparr>call_method = js ''POST'', call_path = js ''/test'',
                      call_body = Some (JObject [(js ''file'', optional_string file),
                                                 (js ''feature'', optional_string feature),
                                                 (js ''repo'', JString repo)]),
                      call_state = st\<rparr>))"
proof -
  have target: "truthy (or_else (optional_string file) (optional_string feature))
      = (\<not> ((file = None \<or> file = Some []) \<and> (feature = None \<or> feature = Some [])))"
    by (cases "file"; cases feature) (simp_all add: or_else_def optional_string_def)
  show ?thesis
    using assms by (simp add: generate_tests_def Let_def target await_request_def)
qed

theorem generate_tests_needs_target_witness:
  "generate_tests mock_platform test_config (js ''owner/repo'') None None [EvResponse 200]
     = \<lparr>returned = Some (JString (js ''Error: Provide either 'file' or 'feature' to test.'')),
        transport = None\<rparr>
   \<and> (\<exists>st. transport (generate_tests mock_platform test_config (js ''owner/repo'')
               (Some (js ''src/auth.ts'')) None [])
          = Some \<lparr>call_method = js ''POST'', call_path = js ''/test'',
                  call_body = Some (JObject [(js ''file'', JString (js ''src/auth.ts'')),
                                             (js ''feature'', JUndefined),
                                             (js ''repo'', JString (js ''owner/repo''))]),
                  call_state = st\<rparr>)"
proof -
  have key: "API_KEY test_config \<noteq> []"
    by (simp add: test_config_def js_def)
  have given: "js ''src/auth.ts'' \<noteq> []"
    by (simp add: js_def)
  show ?thesis
    using generate_tests_needs_target [OF key, of None None mock_platform "js ''owner/repo''"
        "[EvResponse 200]"]
      generate_tests_needs_target [OF key, of "Some (js ''src/auth.ts'')" None mock_platform
        "js ''owner/repo''" "[]"]
      given
    by (simp add: optional_string_def)
qed

text \<open>
  The claim does not hold of an argument that is provided and empty: with \<open>file\<close> the
  empty string and no \<open>feature\<close>, the handler returns the error text and makes no
  request.
\<close>

theorem empty_file_argument_counterexample:
  "generate_tests mock_platform test_config (js ''owner/repo'') (Some []) None []
     = \<lparr>returned = Some (JString (js ''Error: Provide either 'file' or 'feature' to test.'')),
        transport = None\<rparr>"
  by (simp add: generate_tests_def test_config_def js_def or_else_def optional_string_def)

end
